theory Spec2Isabelle
  imports Main "HOL-Library.Sublist"
begin

section \<open>Data model of the NS1 DNS01 solver\<close>

text \<open>
  The solver of \<^verbatim>\<open>pkg/solver/ns1.go\<close> is a struct with two pointer fields and three
  operations that talk to external services: the recursive DNS resolver
  (\<^verbatim>\<open>util.FindZoneByFqdn\<close>), the cluster API (\<^verbatim>\<open>Secrets(ns).Get\<close>) and the NS1 REST
  API (\<^verbatim>\<open>Records.Create\<close>, \<^verbatim>\<open>Records.Delete\<close>). Go strings are byte sequences and
  are modelled as \<open>string\<close>; a nil pointer is \<open>None\<close>.
\<close>

subsection \<open>Errors\<close>

text \<open>
  Go compares \<^verbatim>\<open>err != ns1Rest.ErrRecordExists\<close> by identity with the library's
  sentinel value, so the sentinels are constructors of their own. \<open>Errorf\<close> is an error
  built by \<^verbatim>\<open>fmt.Errorf\<close> in this package and carries its message; \<open>ExternalError\<close> is
  any other error value handed back by a library or service. A nil-pointer dereference
  is the run-time panic \<open>NilPointerPanic\<close>.
\<close>

datatype error =
    ErrRecordExists
  | ErrRecordMissing
  | Errorf string
  | ExternalError string
  | NilPointerPanic

subsection \<open>Challenge request and solver configuration\<close>

text \<open>\<^verbatim>\<open>cmMetaV1.SecretKeySelector\<close>: the fields the solver reads are Name and Key.\<close>

record SecretKeySelector =
  ref_Name :: string
  ref_Key :: string

text \<open>\<^verbatim>\<open>ns1DNSProviderConfig\<close> (ns1.go, lines 37-43).\<close>

record ns1DNSProviderConfig =
  APIKeySecretRef :: SecretKeySelector
  Endpoint :: string
  IgnoreSSL :: bool

text \<open>
  \<^verbatim>\<open>v1alpha1.ChallengeRequest\<close>: the fields the solver reads. \<open>Config\<close> is the pointer
  to the raw JSON blob, \<open>None\<close> when it is nil.
\<close>

record ChallengeRequest =
  ResolvedFQDN :: string
  ResolvedZone :: string
  Key :: string
  ResourceNamespace :: string
  Config :: "string option"

subsection \<open>HTTP client and provider client\<close>

text \<open>
  \<^verbatim>\<open>http.Transport\<close> with its \<^verbatim>\<open>TLSClientConfig.InsecureSkipVerify\<close> flag, and
  \<^verbatim>\<open>http.Client\<close> with its Transport field (nil in the value \<^verbatim>\<open>&http.Client{}\<close>).
\<close>

record http_Transport =
  InsecureSkipVerify :: bool

record http_Client =
  Transport :: "http_Transport option"

text \<open>
  The value returned by \<^verbatim>\<open>ns1Rest.NewClient(httpClient, SetAPIKey(k), SetEndpoint(e))\<close>
  is identified by the three arguments it was built from.
\<close>

record ns1_Client =
  client_http :: http_Client
  client_APIKey :: string
  client_Endpoint :: string

definition NewClient :: "http_Client \<Rightarrow> string \<Rightarrow> string \<Rightarrow> ns1_Client" where
  "NewClient httpClient apiKey endpoint =
     \<lparr>client_http = httpClient, client_APIKey = apiKey, client_Endpoint = endpoint\<rparr>"

subsection \<open>DNS records handed to the provider\<close>

text \<open>
  \<^verbatim>\<open>dns.NewTXTAnswer(s)\<close> and \<^verbatim>\<open>dns.NewRecord(zone, domain, type)\<close>: the record is
  identified by the arguments given to the constructor, its TTL field and the answers
  added to it, in order.
\<close>

datatype dns_Answer = NewTXTAnswer string

record dns_Record =
  rec_Zone :: string
  rec_Domain :: string
  rec_Type :: string
  rec_TTL :: int
  rec_Answers :: "dns_Answer list"

definition NewRecord :: "string \<Rightarrow> string \<Rightarrow> string \<Rightarrow> dns_Record" where
  "NewRecord zone domain t =
     \<lparr>rec_Zone = zone, rec_Domain = domain, rec_Type = t, rec_TTL = 0, rec_Answers = []\<rparr>"

definition AddAnswer :: "dns_Record \<Rightarrow> dns_Answer \<Rightarrow> dns_Record" where
  "AddAnswer r a = r\<lparr>rec_Answers := rec_Answers r @ [a]\<rparr>"

subsection \<open>External calls, environment and solver state\<close>

text \<open>A request sent to the NS1 REST API, with the client that sent it.\<close>

datatype ns1_call =
    RecordsCreate ns1_Client dns_Record
  | RecordsDelete ns1_Client string string string

text \<open>\<^verbatim>\<open>kubernetes.Clientset\<close>, identified by the connection it was built for.\<close>

datatype Clientset = Clientset string

text \<open>
  Everything outside the package is a parameter of the model:
  \<^item> \<open>FindZoneByFqdn\<close>: the zone lookup of \<^verbatim>\<open>util.FindZoneByFqdn(fqdn, RecursiveNameservers)\<close>;
  \<^item> \<open>json_Unmarshal\<close>: \<^verbatim>\<open>json.Unmarshal(raw, &cfg)\<close>, from the bytes and the struct it
    decodes into to the struct afterwards and the decoder's error message, if any;
  \<^item> \<open>Secrets_Get\<close>: \<^verbatim>\<open>CoreV1().Secrets(ns).Get(ctx, name, opts)\<close>, giving the secret's
    Data map;
  \<^item> \<open>ns1_api\<close>: the provider's answer to a request, which may depend on every request
    it has received before.
\<close>

record env =
  FindZoneByFqdn :: "string \<Rightarrow> error + string"
  json_Unmarshal :: "string \<Rightarrow> ns1DNSProviderConfig \<Rightarrow> ns1DNSProviderConfig \<times> string option"
  Secrets_Get :: "Clientset \<Rightarrow> string \<Rightarrow> string \<Rightarrow> error + (string \<rightharpoonup> string)"
  ns1_api :: "ns1_call list \<Rightarrow> ns1_call \<Rightarrow> error option"

text \<open>
  \<open>k8sClient\<close> and \<open>ns1Client\<close> are the fields of \<^verbatim>\<open>Ns1DNSProviderSolver\<close>
  (ns1.go, lines 24-27). \<open>ns1_calls\<close> and \<open>k8s_calls\<close> record, in order, the requests
  sent so far to the provider and the secret lookups (namespace, name) sent to the
  cluster.
\<close>

record Ns1DNSProviderSolver =
  k8sClient :: "Clientset option"
  ns1Client :: "ns1_Client option"
  ns1_calls :: "ns1_call list"
  k8s_calls :: "(string \<times> string) list"

section \<open>Library functions on strings\<close>

text \<open>
  \<^verbatim>\<open>strings.Index(s, substr)\<close> of the Go standard library: the index of the first
  instance of substr in s, or -1 if substr is not present in s.
\<close>

fun strings_Index :: "string \<Rightarrow> string \<Rightarrow> int" where
  "strings_Index [] substr = (if substr = [] then 0 else - 1)"
| "strings_Index (c # s) substr =
     (if prefix substr (c # s) then 0
      else (let i = strings_Index s substr in if i = - 1 then - 1 else i + 1))"

text \<open>
  Modelled from the spec: \<^verbatim>\<open>util.UnFqdn\<close> belongs to the cert-manager library and is
  not part of the repository's sources; the spec says it strips the trailing dot of a
  name.
\<close>

definition UnFqdn :: "string \<Rightarrow> string" where
  "UnFqdn name = (if name \<noteq> [] \<and> last name = CHR ''.'' then butlast name else name)"

section \<open>The solver's operations\<close>

definition zero_config :: ns1DNSProviderConfig where
  "zero_config =
     \<lparr>APIKeySecretRef = \<lparr>ref_Name = [], ref_Key = []\<rparr>, Endpoint = [], IgnoreSSL = False\<rparr>"

text \<open>\<^verbatim>\<open>loadConfig\<close> (ns1.go, lines 142-153); the pair is Go's (cfg, err).\<close>

definition loadConfig :: "env \<Rightarrow> string option \<Rightarrow> ns1DNSProviderConfig \<times> error option" where
  "loadConfig e cfgJSON =
     (let cfg = zero_config in
      case cfgJSON of
        None \<Rightarrow> (cfg, None)
      | Some raw \<Rightarrow>
          (case json_Unmarshal e raw cfg of
             (cfg', Some err) \<Rightarrow> (cfg', Some (Errorf (''error decoding solver config: '' @ err)))
           | (cfg', None) \<Rightarrow> (cfg', None)))"

text \<open>
  \<^verbatim>\<open>setNS1Client\<close> (ns1.go, lines 155-202). The quote character of the messages is
  \<open>CHR 0x27\<close>. The call through a nil \<open>k8sClient\<close> panics.
\<close>

definition quoted :: "string \<Rightarrow> string" where
  "quoted s = CHR 0x27 # s @ [CHR 0x27]"

definition setNS1Client ::
  "env \<Rightarrow> Ns1DNSProviderSolver \<Rightarrow> ChallengeRequest \<Rightarrow> ns1DNSProviderConfig
     \<Rightarrow> error option \<times> Ns1DNSProviderSolver" where
  "setNS1Client e c ch cfg =
     (let ref = APIKeySecretRef cfg in
      if ref_Name ref = [] then
        (Some (Errorf (''secret for NS1 apiKey not found in '' @ quoted (ResourceNamespace ch))), c)
      else if ref_Key ref = [] then
        (Some (Errorf (''no '' @ quoted ''key'' @ '' set in secret ''
                        @ quoted (ResourceNamespace ch @ ''/'' @ ref_Name ref))), c)
      else
        (case k8sClient c of
           None \<Rightarrow> (Some NilPointerPanic, c)
         | Some cl \<Rightarrow>
             (let c1 = c\<lparr>k8s_calls := k8s_calls c @ [(ResourceNamespace ch, ref_Name ref)]\<rparr> in
              case Secrets_Get e cl (ResourceNamespace ch) (ref_Name ref) of
                Inl err \<Rightarrow> (Some err, c1)
              | Inr secret_Data \<Rightarrow>
                  (case secret_Data (ref_Key ref) of
                     None \<Rightarrow>
                       (Some (Errorf (''no key '' @ quoted (ref_Key ref) @ '' in secret ''
                                       @ quoted (ResourceNamespace ch @ ''/'' @ ref_Name ref))), c1)
                   | Some apiKey \<Rightarrow>
                       (let httpClient =
                              (if IgnoreSSL cfg
                               then \<lparr>Transport = Some \<lparr>InsecureSkipVerify = True\<rparr>\<rparr>
                               else \<lparr>Transport = None\<rparr>)
                        in (None, c1\<lparr>ns1Client :=
                                      Some (NewClient httpClient apiKey (Endpoint cfg))\<rparr>))))))"

text \<open>\<^verbatim>\<open>parseChallenge\<close> (ns1.go, lines 205-223).\<close>

definition parseChallenge :: "env \<Rightarrow> ChallengeRequest \<Rightarrow> error + (string \<times> string)" where
  "parseChallenge e ch =
     (case FindZoneByFqdn e (ResolvedFQDN ch) of
        Inl err \<Rightarrow> Inl err
      | Inr z \<Rightarrow>
          (let zone = UnFqdn z;
               idx = strings_Index (ResolvedFQDN ch) (''.'' @ ResolvedZone ch);
               domain = (if idx \<noteq> - 1 then take (nat idx) (ResolvedFQDN ch)
                         else UnFqdn (ResolvedFQDN ch))
           in Inr (zone, domain)))"

text \<open>\<^verbatim>\<open>Present\<close> (ns1.go, lines 56-87).\<close>

definition Present ::
  "env \<Rightarrow> Ns1DNSProviderSolver \<Rightarrow> ChallengeRequest \<Rightarrow> error option \<times> Ns1DNSProviderSolver" where
  "Present e c ch =
     (case loadConfig e (Config ch) of
        (cfg, Some err) \<Rightarrow> (Some err, c)
      | (cfg, None) \<Rightarrow>
          (case parseChallenge e ch of
             Inl err \<Rightarrow> (Some err, c)
           | Inr (zone, domain) \<Rightarrow>
               (case (if ns1Client c = None then setNS1Client e c ch cfg else (None, c)) of
                  (Some err, c1) \<Rightarrow> (Some err, c1)
                | (None, c1) \<Rightarrow>
                    (case ns1Client c1 of
                       None \<Rightarrow> (Some NilPointerPanic, c1)
                     | Some cl \<Rightarrow>
                         (let record = AddAnswer ((NewRecord zone domain ''TXT'')\<lparr>rec_TTL := 600\<rparr>)
                                         (NewTXTAnswer (Key ch));
                              req = RecordsCreate cl record;
                              err = ns1_api e (ns1_calls c1) req;
                              c2 = c1\<lparr>ns1_calls := ns1_calls c1 @ [req]\<rparr>
                          in (case err of
                                Some err' \<Rightarrow>
                                  if err' \<noteq> ErrRecordExists then (Some err', c2) else (None, c2)
                              | None \<Rightarrow> (None, c2)))))))"

text \<open>\<^verbatim>\<open>CleanUp\<close> (ns1.go, lines 95-120).\<close>

definition CleanUp ::
  "env \<Rightarrow> Ns1DNSProviderSolver \<Rightarrow> ChallengeRequest \<Rightarrow> error option \<times> Ns1DNSProviderSolver" where
  "CleanUp e c ch =
     (case loadConfig e (Config ch) of
        (cfg, Some err) \<Rightarrow> (Some err, c)
      | (cfg, None) \<Rightarrow>
          (case parseChallenge e ch of
             Inl err \<Rightarrow> (Some err, c)
           | Inr (zone, domain) \<Rightarrow>
               (case (if ns1Client c = None then setNS1Client e c ch cfg else (None, c)) of
                  (Some err, c1) \<Rightarrow> (Some err, c1)
                | (None, c1) \<Rightarrow>
                    (case ns1Client c1 of
                       None \<Rightarrow> (Some NilPointerPanic, c1)
                     | Some cl \<Rightarrow>
                         (let req = RecordsDelete cl zone (domain @ ''.'' @ zone) ''TXT'';
                              err = ns1_api e (ns1_calls c1) req;
                              c2 = c1\<lparr>ns1_calls := ns1_calls c1 @ [req]\<rparr>
                          in (case err of
                                Some err' \<Rightarrow> (Some err', c2)
                              | None \<Rightarrow> (None, c2)))))))"

section \<open>Example inputs\<close>

text \<open>
  The scenario of the specification: the secret \<^verbatim>\<open>ns1-creds\<close> in namespace
  \<^verbatim>\<open>default\<close> holds the key \<^verbatim>\<open>apiKey\<close>, and the challenge is for
  \<^verbatim>\<open>_acme-challenge.example.com.\<close> in the zone \<^verbatim>\<open>example.com.\<close>
\<close>

definition ex_config :: ns1DNSProviderConfig where
  "ex_config =
     \<lparr>APIKeySecretRef = \<lparr>ref_Name = ''ns1-creds'', ref_Key = ''apiKey''\<rparr>,
      Endpoint = ''https://api.nsone.net/v1/'', IgnoreSSL = False\<rparr>"

text \<open>A provider that refuses a request it has received before, and one that always fails.\<close>

definition ex_api_dup :: "ns1_call list \<Rightarrow> ns1_call \<Rightarrow> error option" where
  "ex_api_dup hist req = (if req \<in> set hist then Some ErrRecordExists else None)"

definition ex_api_error :: "error \<Rightarrow> ns1_call list \<Rightarrow> ns1_call \<Rightarrow> error option" where
  "ex_api_error err hist req = Some err"

text \<open>
  An environment: every name lies in the zone \<^verbatim>\<open>example.com.\<close>; the blob \<^verbatim>\<open>{}\<close>
  decodes to the struct unchanged, the blob \<^verbatim>\<open>{\<close> is cut short, and every other blob
  stands for the JSON text of \<open>cfg0\<close>; the cluster holds the one secret.
\<close>

definition ex_env :: "ns1DNSProviderConfig \<Rightarrow> (ns1_call list \<Rightarrow> ns1_call \<Rightarrow> error option) \<Rightarrow> env" where
  "ex_env cfg0 api =
     \<lparr>FindZoneByFqdn = (\<lambda>fqdn. Inr ''example.com.''),
      json_Unmarshal = (\<lambda>raw cfg.
         if raw = ''{}'' then (cfg, None)
         else if raw = ''{'' then (cfg, Some ''unexpected end of JSON input'')
         else (cfg0, None)),
      Secrets_Get = (\<lambda>cl ns name.
         if ns = ''default'' \<and> name = ''ns1-creds'' then Inr [''apiKey'' \<mapsto> ''s3cr3t'']
         else Inl (ExternalError ''secret not found'')),
      ns1_api = api\<rparr>"

definition ex_client :: ns1_Client where
  "ex_client = NewClient \<lparr>Transport = None\<rparr> ''s3cr3t'' ''https://api.nsone.net/v1/''"

definition ex_solver :: "ns1_Client option \<Rightarrow> Ns1DNSProviderSolver" where
  "ex_solver cl =
     \<lparr>k8sClient = Some (Clientset ''https://kubernetes.default.svc''), ns1Client = cl,
      ns1_calls = [], k8s_calls = []\<rparr>"

definition ex_challenge :: "string option \<Rightarrow> ChallengeRequest" where
  "ex_challenge blob =
     \<lparr>ResolvedFQDN = ''_acme-challenge.example.com.'', ResolvedZone = ''example.com.'',
      Key = ''token-1'', ResourceNamespace = ''default'', Config = blob\<rparr>"

definition ex_record :: dns_Record where
  "ex_record =
     \<lparr>rec_Zone = ''example.com'', rec_Domain = ''_acme-challenge'', rec_Type = ''TXT'',
      rec_TTL = 600, rec_Answers = [NewTXTAnswer ''token-1'']\<rparr>"

section \<open>Auxiliary facts\<close>

subsection \<open>First occurrence of a substring\<close>

lemma strings_Index_ge: "- 1 \<le> strings_Index s sub"
  by (induction s) (auto simp: Let_def)

lemma strings_Index_found:
  "strings_Index s sub \<noteq> - 1 \<Longrightarrow> \<exists>suf. s = take (nat (strings_Index s sub)) s @ sub @ suf"
proof (induction s)
  case Nil
  then show ?case by (auto split: if_splits)
next
  case (Cons c s)
  show ?case
  proof (cases "prefix sub (c # s)")
    case True
    then show ?thesis by (auto simp: prefix_def)
  next
    case False
    with Cons.prems have ne: "strings_Index s sub \<noteq> - 1"
      by (auto simp: Let_def split: if_splits)
    from Cons.IH [OF ne] obtain suf where
      suf: "s = take (nat (strings_Index s sub)) s @ sub @ suf" ..
    have ge: "0 \<le> strings_Index s sub"
      using strings_Index_ge [of s sub] ne by linarith
    have "nat (strings_Index s sub + 1) = Suc (nat (strings_Index s sub))"
      using ge by simp
    with False ne suf show ?thesis
      by (auto simp: Let_def)
  qed
qed

lemma strings_Index_first:
  "s = pre @ sub @ suf \<Longrightarrow>
     strings_Index s sub \<noteq> - 1 \<and> strings_Index s sub \<le> int (length pre)"
proof (induction pre arbitrary: s)
  case Nil
  then have "prefix sub s" by (simp add: prefix_def)
  then show ?case by (cases s) simp_all
next
  case (Cons a pre)
  then obtain t where s: "s = a # t" and t: "t = pre @ sub @ suf" by auto
  from Cons.IH [OF t] have ih: "strings_Index t sub \<noteq> - 1"
    "strings_Index t sub \<le> int (length pre)" by auto
  show ?case using ih strings_Index_ge [of t sub] by (auto simp: s Let_def)
qed

subsection \<open>What the steps before the provider call read and change\<close>

lemma parseChallenge_Config [simp]: "parseChallenge e (ch\<lparr>Config := x\<rparr>) = parseChallenge e ch"
  by (simp add: parseChallenge_def Let_def split: sum.splits)

lemma parseChallenge_Key [simp]: "parseChallenge e (ch\<lparr>Key := k\<rparr>) = parseChallenge e ch"
  by (simp add: parseChallenge_def Let_def split: sum.splits)

lemma parseChallenge_Secrets [simp]:
  "parseChallenge (e\<lparr>Secrets_Get := g\<rparr>) ch = parseChallenge e ch"
  by (simp add: parseChallenge_def Let_def split: sum.splits)

lemma loadConfig_Secrets [simp]: "loadConfig (e\<lparr>Secrets_Get := g\<rparr>) x = loadConfig e x"
  by (simp add: loadConfig_def split: option.splits)

lemma setNS1Client_Key [simp]: "setNS1Client e c (ch\<lparr>Key := k\<rparr>) cfg = setNS1Client e c ch cfg"
  by (simp add: setNS1Client_def Let_def cong: if_cong option.case_cong sum.case_cong)

lemma setNS1Client_ns1_calls: "ns1_calls (snd (setNS1Client e c ch cfg)) = ns1_calls c"
  by (simp add: setNS1Client_def Let_def split: option.splits sum.splits)

lemma setNS1Client_ok:
  "setNS1Client e c ch cfg = (None, c1) \<Longrightarrow> \<exists>cl. ns1Client c1 = Some cl"
  by (auto simp: setNS1Client_def Let_def split: option.splits sum.splits if_splits)

lemma setNS1Client_failed:
  "setNS1Client e c ch cfg = (Some err, c1) \<Longrightarrow> ns1Client c1 = ns1Client c"
  by (auto simp: setNS1Client_def Let_def split: option.splits sum.splits if_splits)

lemma setNS1Client_incomplete_ref:
  "ref_Name (APIKeySecretRef cfg) = [] \<or> ref_Key (APIKeySecretRef cfg) = [] \<Longrightarrow>
     fst (setNS1Client e c ch cfg) \<noteq> None \<and> snd (setNS1Client e c ch cfg) = c"
  by (auto simp: setNS1Client_def Let_def)

subsection \<open>The four ways a call can end\<close>

lemma Present_outcome:
  obtains
    (config_error) cfg err where
      "loadConfig e (Config ch) = (cfg, Some err)" "Present e c ch = (Some err, c)"
  | (zone_error) cfg err where
      "loadConfig e (Config ch) = (cfg, None)" "parseChallenge e ch = Inl err"
      "Present e c ch = (Some err, c)"
  | (client_error) cfg zone domain err c1 where
      "loadConfig e (Config ch) = (cfg, None)" "parseChallenge e ch = Inr (zone, domain)"
      "ns1Client c = None" "setNS1Client e c ch cfg = (Some err, c1)"
      "ns1Client c1 = None" "ns1_calls c1 = ns1_calls c"
      "Present e c ch = (Some err, c1)"
  | (reached) cfg zone domain c1 cl where
      "loadConfig e (Config ch) = (cfg, None)" "parseChallenge e ch = Inr (zone, domain)"
      "(if ns1Client c = None then setNS1Client e c ch cfg else (None, c)) = (None, c1)"
      "ns1Client c1 = Some cl" "ns1_calls c1 = ns1_calls c"
      "Present e c ch =
         (case ns1_api e (ns1_calls c)
                 (RecordsCreate cl \<lparr>rec_Zone = zone, rec_Domain = domain, rec_Type = ''TXT'',
                    rec_TTL = 600, rec_Answers = [NewTXTAnswer (Key ch)]\<rparr>) of
            None \<Rightarrow> None
          | Some err \<Rightarrow> if err = ErrRecordExists then None else Some err,
          c1\<lparr>ns1_calls := ns1_calls c @
                 [RecordsCreate cl \<lparr>rec_Zone = zone, rec_Domain = domain, rec_Type = ''TXT'',
                    rec_TTL = 600, rec_Answers = [NewTXTAnswer (Key ch)]\<rparr>]\<rparr>)"
proof -
  obtain cfg lerr where lc: "loadConfig e (Config ch) = (cfg, lerr)"
    by (cases "loadConfig e (Config ch)")
  show thesis
  proof (cases lerr)
    case (Some err)
    with lc show thesis by (intro config_error [of cfg err]) (simp_all add: Present_def)
  next
    case None
    note lc = lc [unfolded None]
    show thesis
    proof (cases "parseChallenge e ch")
      case (Inl err)
      with lc show thesis by (intro zone_error [of cfg err]) (simp_all add: Present_def)
    next
      case (Inr zd)
      then obtain zone domain where pc: "parseChallenge e ch = Inr (zone, domain)"
        by (cases zd) simp
      obtain gerr c1 where
        g: "(if ns1Client c = None then setNS1Client e c ch cfg else (None, c)) = (gerr, c1)"
        by (cases "if ns1Client c = None then setNS1Client e c ch cfg else (None, c)")
      show thesis
      proof (cases gerr)
        case (Some err)
        with g have nil: "ns1Client c = None" and s: "setNS1Client e c ch cfg = (Some err, c1)"
          by (auto split: if_splits)
        from lc pc g Some have "Present e c ch = (Some err, c1)"
          by (simp add: Present_def)
        moreover from s nil have "ns1Client c1 = None"
          using setNS1Client_failed [of e c ch cfg err c1] by simp
        moreover from s have "ns1_calls c1 = ns1_calls c"
          using setNS1Client_ns1_calls [of e c ch cfg] by simp
        ultimately show thesis
          using lc pc nil s by (intro client_error [of cfg zone domain err c1])
      next
        case None
        note g = g [unfolded None]
        have calls: "ns1_calls c1 = ns1_calls c"
          using g setNS1Client_ns1_calls [of e c ch cfg] by (auto split: if_splits)
        from g obtain cl where cl: "ns1Client c1 = Some cl"
          using setNS1Client_ok [of e c ch cfg c1] by (auto split: if_splits)
        from lc pc g cl calls show thesis
          by (intro reached [of cfg zone domain c1 cl])
            (simp_all add: Present_def Let_def NewRecord_def AddAnswer_def split: option.splits)
      qed
    qed
  qed
qed

lemma CleanUp_outcome:
  obtains
    (config_error) cfg err where
      "loadConfig e (Config ch) = (cfg, Some err)" "CleanUp e c ch = (Some err, c)"
  | (zone_error) cfg err where
      "loadConfig e (Config ch) = (cfg, None)" "parseChallenge e ch = Inl err"
      "CleanUp e c ch = (Some err, c)"
  | (client_error) cfg zone domain err c1 where
      "loadConfig e (Config ch) = (cfg, None)" "parseChallenge e ch = Inr (zone, domain)"
      "ns1Client c = None" "setNS1Client e c ch cfg = (Some err, c1)"
      "ns1Client c1 = None" "ns1_calls c1 = ns1_calls c"
      "CleanUp e c ch = (Some err, c1)"
  | (reached) cfg zone domain c1 cl where
      "loadConfig e (Config ch) = (cfg, None)" "parseChallenge e ch = Inr (zone, domain)"
      "(if ns1Client c = None then setNS1Client e c ch cfg else (None, c)) = (None, c1)"
      "ns1Client c1 = Some cl" "ns1_calls c1 = ns1_calls c"
      "CleanUp e c ch =
         (ns1_api e (ns1_calls c) (RecordsDelete cl zone (domain @ ''.'' @ zone) ''TXT''),
          c1\<lparr>ns1_calls := ns1_calls c @
                 [RecordsDelete cl zone (domain @ ''.'' @ zone) ''TXT'']\<rparr>)"
proof -
  obtain cfg lerr where lc: "loadConfig e (Config ch) = (cfg, lerr)"
    by (cases "loadConfig e (Config ch)")
  show thesis
  proof (cases lerr)
    case (Some err)
    with lc show thesis by (intro config_error [of cfg err]) (simp_all add: CleanUp_def)
  next
    case None
    note lc = lc [unfolded None]
    show thesis
    proof (cases "parseChallenge e ch")
      case (Inl err)
      with lc show thesis by (intro zone_error [of cfg err]) (simp_all add: CleanUp_def)
    next
      case (Inr zd)
      then obtain zone domain where pc: "parseChallenge e ch = Inr (zone, domain)"
        by (cases zd) simp
      obtain gerr c1 where
        g: "(if ns1Client c = None then setNS1Client e c ch cfg else (None, c)) = (gerr, c1)"
        by (cases "if ns1Client c = None then setNS1Client e c ch cfg else (None, c)")
      show thesis
      proof (cases gerr)
        case (Some err)
        with g have nil: "ns1Client c = None" and s: "setNS1Client e c ch cfg = (Some err, c1)"
          by (auto split: if_splits)
        from lc pc g Some have "CleanUp e c ch = (Some err, c1)"
          by (simp add: CleanUp_def)
        moreover from s nil have "ns1Client c1 = None"
          using setNS1Client_failed [of e c ch cfg err c1] by simp
        moreover from s have "ns1_calls c1 = ns1_calls c"
          using setNS1Client_ns1_calls [of e c ch cfg] by simp
        ultimately show thesis
          using lc pc nil s by (intro client_error [of cfg zone domain err c1])
      next
        case None
        note g = g [unfolded None]
        have calls: "ns1_calls c1 = ns1_calls c"
          using g setNS1Client_ns1_calls [of e c ch cfg] by (auto split: if_splits)
        from g obtain cl where cl: "ns1Client c1 = Some cl"
          using setNS1Client_ok [of e c ch cfg c1] by (auto split: if_splits)
        from lc pc g cl calls show thesis
          by (intro reached [of cfg zone domain c1 cl])
            (simp_all add: CleanUp_def Let_def split: option.splits)
      qed
    qed
  qed
qed

subsection \<open>Calls made while a provider client is held\<close>

lemma Present_cached:
  assumes "ns1Client c = Some cl" and "snd (loadConfig e (Config ch)) = None"
  shows "Present e c ch =
    (case parseChallenge e ch of
       Inl err \<Rightarrow> (Some err, c)
     | Inr (zone, domain) \<Rightarrow>
         (case ns1_api e (ns1_calls c)
                 (RecordsCreate cl \<lparr>rec_Zone = zone, rec_Domain = domain, rec_Type = ''TXT'',
                    rec_TTL = 600, rec_Answers = [NewTXTAnswer (Key ch)]\<rparr>) of
            None \<Rightarrow> None
          | Some err \<Rightarrow> if err = ErrRecordExists then None else Some err,
          c\<lparr>ns1_calls := ns1_calls c @
                 [RecordsCreate cl \<lparr>rec_Zone = zone, rec_Domain = domain, rec_Type = ''TXT'',
                    rec_TTL = 600, rec_Answers = [NewTXTAnswer (Key ch)]\<rparr>]\<rparr>))"
  using assms by (cases rule: Present_outcome [of e ch c]) auto

lemma CleanUp_cached:
  assumes "ns1Client c = Some cl" and "snd (loadConfig e (Config ch)) = None"
  shows "CleanUp e c ch =
    (case parseChallenge e ch of
       Inl err \<Rightarrow> (Some err, c)
     | Inr (zone, domain) \<Rightarrow>
         (ns1_api e (ns1_calls c) (RecordsDelete cl zone (domain @ ''.'' @ zone) ''TXT''),
          c\<lparr>ns1_calls := ns1_calls c @
                 [RecordsDelete cl zone (domain @ ''.'' @ zone) ''TXT'']\<rparr>))"
  using assms by (cases rule: CleanUp_outcome [of e ch c]) auto

lemma Present_config_error:
  "snd (loadConfig e (Config ch)) = Some err \<Longrightarrow> Present e c ch = (Some err, c)"
  by (cases rule: Present_outcome [of e ch c]) auto

lemma CleanUp_config_error:
  "snd (loadConfig e (Config ch)) = Some err \<Longrightarrow> CleanUp e c ch = (Some err, c)"
  by (cases rule: CleanUp_outcome [of e ch c]) auto

lemma Present_cached_state:
  assumes "ns1Client c = Some cl"
  shows "ns1Client (snd (Present e c ch)) = Some cl"
    and "k8s_calls (snd (Present e c ch)) = k8s_calls c"
    and "ns1_calls (snd (Present e c ch)) = ns1_calls c @ [req] \<Longrightarrow> \<exists>r. req = RecordsCreate cl r"
  using assms by (cases rule: Present_outcome [of e ch c]; auto)+

lemma CleanUp_cached_state:
  assumes "ns1Client c = Some cl"
  shows "ns1Client (snd (CleanUp e c ch)) = Some cl"
    and "k8s_calls (snd (CleanUp e c ch)) = k8s_calls c"
    and "ns1_calls (snd (CleanUp e c ch)) = ns1_calls c @ [req] \<Longrightarrow> \<exists>z d t. req = RecordsDelete cl z d t"
  using assms by (cases rule: CleanUp_outcome [of e ch c]; auto)+

lemma Present_cached_Secrets:
  assumes "ns1Client c = Some cl"
  shows "Present (e\<lparr>Secrets_Get := g\<rparr>) c ch = Present e c ch"
proof (cases "snd (loadConfig e (Config ch))")
  case None
  then show ?thesis
    using Present_cached [OF assms, of e ch] Present_cached [OF assms, of "e\<lparr>Secrets_Get := g\<rparr>" ch]
    by (simp cong: sum.case_cong prod.case_cong)
next
  case (Some err)
  then show ?thesis
    using Present_config_error [of e ch err c]
      Present_config_error [of "e\<lparr>Secrets_Get := g\<rparr>" ch err c] by simp
qed

lemma CleanUp_cached_Secrets:
  assumes "ns1Client c = Some cl"
  shows "CleanUp (e\<lparr>Secrets_Get := g\<rparr>) c ch = CleanUp e c ch"
proof (cases "snd (loadConfig e (Config ch))")
  case None
  then show ?thesis
    using CleanUp_cached [OF assms, of e ch] CleanUp_cached [OF assms, of "e\<lparr>Secrets_Get := g\<rparr>" ch]
    by (simp cong: sum.case_cong prod.case_cong)
next
  case (Some err)
  then show ?thesis
    using CleanUp_config_error [of e ch err c]
      CleanUp_config_error [of "e\<lparr>Secrets_Get := g\<rparr>" ch err c] by simp
qed

subsection \<open>The client that is built\<close>

lemma setNS1Client_built:
  "setNS1Client e c ch cfg = (None, c') \<Longrightarrow>
     \<exists>apiKey. ns1Client c' =
        Some (NewClient (if IgnoreSSL cfg
                         then \<lparr>Transport = Some \<lparr>InsecureSkipVerify = True\<rparr>\<rparr>
                         else \<lparr>Transport = None\<rparr>) apiKey (Endpoint cfg))"
  by (auto simp: setNS1Client_def Let_def split: if_splits option.splits sum.splits)

subsection \<open>Evaluating the examples\<close>

lemmas ex_defs = ex_env_def ex_config_def ex_api_dup_def ex_api_error_def ex_client_def
  ex_solver_def ex_challenge_def ex_record_def

lemmas op_defs = Present_def CleanUp_def loadConfig_def zero_config_def parseChallenge_def
  setNS1Client_def UnFqdn_def NewClient_def NewRecord_def AddAnswer_def Let_def quoted_def

section \<open>Present tolerates a record that already exists\<close>

text \<open>
  Claim C1. Whenever Present has sent a request to the provider and the provider has
  answered it with \<open>ErrRecordExists\<close>, Present returns success; whenever the provider
  has answered with any other error, Present returns that very error. Consequently, in
  a fixed environment, if a first call of Present with a challenge has succeeded and
  the provider answers the repetition of the request it has just received with success
  or with \<open>ErrRecordExists\<close>, then a second call with the same challenge succeeds too,
  and it sends that same request again.
\<close>

theorem Present_record_exists_is_success:
  "(ns1_calls (snd (Present e c ch)) = ns1_calls c @ [req]
      \<and> ns1_api e (ns1_calls c) req = Some ErrRecordExists
      \<longrightarrow> fst (Present e c ch) = None)
   \<and> (ns1_calls (snd (Present e c ch)) = ns1_calls c @ [req]
      \<and> ns1_api e (ns1_calls c) req = Some err \<and> err \<noteq> ErrRecordExists
      \<longrightarrow> fst (Present e c ch) = Some err)
   \<and> (Present e c ch = (None, c1)
      \<and> (ns1_api e (ns1_calls c1) (last (ns1_calls c1)) = None
         \<or> ns1_api e (ns1_calls c1) (last (ns1_calls c1)) = Some ErrRecordExists)
      \<longrightarrow> fst (Present e c1 ch) = None
          \<and> ns1_calls (snd (Present e c1 ch)) = ns1_calls c1 @ [last (ns1_calls c1)])"
proof (intro conjI impI)
  assume h: "ns1_calls (snd (Present e c ch)) = ns1_calls c @ [req]
      \<and> ns1_api e (ns1_calls c) req = Some ErrRecordExists"
  show "fst (Present e c ch) = None"
    using h by (cases rule: Present_outcome [of e ch c]) auto
next
  assume h: "ns1_calls (snd (Present e c ch)) = ns1_calls c @ [req]
      \<and> ns1_api e (ns1_calls c) req = Some err \<and> err \<noteq> ErrRecordExists"
  show "fst (Present e c ch) = Some err"
    using h by (cases rule: Present_outcome [of e ch c]) auto
next
  assume h: "Present e c ch = (None, c1)
      \<and> (ns1_api e (ns1_calls c1) (last (ns1_calls c1)) = None
         \<or> ns1_api e (ns1_calls c1) (last (ns1_calls c1)) = Some ErrRecordExists)"
  then have first: "Present e c ch = (None, c1)" by simp
  show "fst (Present e c1 ch) = None"
  proof (cases rule: Present_outcome [of e ch c])
    case (reached cfg zone domain c0 cl)
    let ?req = "RecordsCreate cl \<lparr>rec_Zone = zone, rec_Domain = domain, rec_Type = ''TXT'',
                    rec_TTL = 600, rec_Answers = [NewTXTAnswer (Key ch)]\<rparr>"
    from reached(6) first have c1: "c1 = c0\<lparr>ns1_calls := ns1_calls c @ [?req]\<rparr>" by simp
    then have cl1: "ns1Client c1 = Some cl" and lst: "last (ns1_calls c1) = ?req"
      using reached(4) by simp_all
    show ?thesis
    proof (cases rule: Present_outcome [of e ch c1])
      case (reached cfg' zone' domain' c2 cl')
      from reached(2) \<open>parseChallenge e ch = Inr (zone, domain)\<close>
      have zd: "zone' = zone" "domain' = domain" by simp_all
      from reached(3) cl1 have "c2 = c1" by simp
      with reached(4) cl1 have "cl' = cl" by simp
      with reached(6) zd lst h show ?thesis by auto
    qed (use cl1 reached in auto)
  qed (use first in auto)
  show "ns1_calls (snd (Present e c1 ch)) = ns1_calls c1 @ [last (ns1_calls c1)]"
  proof (cases rule: Present_outcome [of e ch c])
    case (reached cfg zone domain c0 cl)
    let ?req = "RecordsCreate cl \<lparr>rec_Zone = zone, rec_Domain = domain, rec_Type = ''TXT'',
                    rec_TTL = 600, rec_Answers = [NewTXTAnswer (Key ch)]\<rparr>"
    from reached(6) first have c1: "c1 = c0\<lparr>ns1_calls := ns1_calls c @ [?req]\<rparr>" by simp
    then have cl1: "ns1Client c1 = Some cl" and lst: "last (ns1_calls c1) = ?req"
      using reached(4) by simp_all
    show ?thesis
    proof (cases rule: Present_outcome [of e ch c1])
      case (reached cfg' zone' domain' c2 cl')
      from reached(2) \<open>parseChallenge e ch = Inr (zone, domain)\<close>
      have zd: "zone' = zone" "domain' = domain" by simp_all
      from reached(3) cl1 have c2: "c2 = c1" by simp
      with reached(4) cl1 have "cl' = cl" by simp
      with reached(6) zd lst c2 show ?thesis by auto
    qed (use cl1 reached in auto)
  qed (use first in auto)
qed

theorem Present_record_exists_is_success_witness:
  "Present (ex_env ex_config ex_api_dup) (ex_solver None) (ex_challenge (Some ''ns1.json''))
     = (None, (ex_solver (Some ex_client))
                \<lparr>ns1_calls := [RecordsCreate ex_client ex_record],
                 k8s_calls := [(''default'', ''ns1-creds'')]\<rparr>)
   \<and> ns1_api (ex_env ex_config ex_api_dup) [RecordsCreate ex_client ex_record]
         (RecordsCreate ex_client ex_record) = Some ErrRecordExists
   \<and> fst (Present (ex_env ex_config ex_api_dup)
            ((ex_solver (Some ex_client))
                \<lparr>ns1_calls := [RecordsCreate ex_client ex_record],
                 k8s_calls := [(''default'', ''ns1-creds'')]\<rparr>)
            (ex_challenge (Some ''ns1.json''))) = None
   \<and> ns1_api (ex_env ex_config (ex_api_error (ExternalError ''401 Unauthorized''))) []
         (RecordsCreate ex_client ex_record) = Some (ExternalError ''401 Unauthorized'')
   \<and> fst (Present (ex_env ex_config (ex_api_error (ExternalError ''401 Unauthorized'')))
            (ex_solver None) (ex_challenge (Some ''ns1.json'')))
       = Some (ExternalError ''401 Unauthorized'')"
proof -
  let ?e = "ex_env ex_config ex_api_dup"
  let ?e' = "ex_env ex_config (ex_api_error (ExternalError ''401 Unauthorized''))"
  let ?ch = "ex_challenge (Some ''ns1.json'')"
  let ?req = "RecordsCreate ex_client ex_record"
  let ?c1 = "(ex_solver (Some ex_client))
                \<lparr>ns1_calls := [?req], k8s_calls := [(''default'', ''ns1-creds'')]\<rparr>"
  have first: "Present ?e (ex_solver None) ?ch = (None, ?c1)"
    by (simp add: ex_defs op_defs)
  have dup: "ns1_api ?e (ns1_calls ?c1) (last (ns1_calls ?c1)) = Some ErrRecordExists"
    by (simp add: ex_defs)
  have sent: "ns1_calls (snd (Present ?e ?c1 ?ch)) = ns1_calls ?c1 @ [?req]"
    using Present_record_exists_is_success [of ?e "ex_solver None" ?ch _ _ ?c1] first dup
    by simp
  have again: "fst (Present ?e ?c1 ?ch) = None"
    using Present_record_exists_is_success [of ?e ?c1 ?ch ?req] sent dup by simp
  have sent': "ns1_calls (snd (Present ?e' (ex_solver None) ?ch))
                 = ns1_calls (ex_solver None) @ [?req]"
    by (simp add: ex_defs op_defs)
  have fail: "ns1_api ?e' (ns1_calls (ex_solver None)) ?req
                = Some (ExternalError ''401 Unauthorized'')"
    by (simp add: ex_defs)
  have other: "fst (Present ?e' (ex_solver None) ?ch) = Some (ExternalError ''401 Unauthorized'')"
    using Present_record_exists_is_success
            [of ?e' "ex_solver None" ?ch ?req "ExternalError ''401 Unauthorized''"] sent' fail
    by simp
  from first dup again fail other show ?thesis by (simp add: ex_solver_def)
qed

section \<open>CleanUp deletes the record derived from the challenge\<close>



section \<open>Deriving the domain\<close>

text \<open>
  Claim C3. Let parseChallenge derive a zone and a domain from a challenge. If the
  resolved FQDN contains the resolved zone, preceded by a dot, as a substring, then the
  domain is the part of the FQDN before the first such occurrence: the FQDN is the
  domain followed by the dot, the zone and a rest, and no occurrence starts earlier. If
  the FQDN contains no such substring, the domain is the FQDN without its trailing dot.
  The FQDN \<^verbatim>\<open>_acme-challenge.example.com.\<close> with zone \<^verbatim>\<open>example.com\<close> gives
  \<^verbatim>\<open>_acme-challenge\<close>.
\<close>

theorem parseChallenge_domain:
  assumes ok: "parseChallenge e ch = Inr (zone, domain)"
  shows "(\<forall>pre suf. ResolvedFQDN ch = pre @ ''.'' @ ResolvedZone ch @ suf \<longrightarrow>
            (\<exists>suf'. ResolvedFQDN ch = domain @ ''.'' @ ResolvedZone ch @ suf')
            \<and> length domain \<le> length pre)
       \<and> ((\<nexists>pre suf. ResolvedFQDN ch = pre @ ''.'' @ ResolvedZone ch @ suf) \<longrightarrow>
            domain = UnFqdn (ResolvedFQDN ch))"
proof -
  let ?s = "ResolvedFQDN ch" and ?sub = "''.'' @ ResolvedZone ch"
  let ?i = "strings_Index ?s ?sub"
  from ok have dom: "domain = (if ?i \<noteq> - 1 then take (nat ?i) ?s else UnFqdn ?s)"
    by (auto simp: parseChallenge_def Let_def split: sum.splits)
  have found: "(\<exists>suf'. ?s = domain @ ?sub @ suf') \<and> length domain \<le> length pre"
    if occ: "?s = pre @ ?sub @ suf" for pre suf
  proof -
    from strings_Index_first [OF occ] have ne: "?i \<noteq> - 1" and le: "?i \<le> int (length pre)"
      by auto
    from ne dom have d: "domain = take (nat ?i) ?s" by simp
    from strings_Index_found [OF ne] d have "\<exists>suf'. ?s = domain @ ?sub @ suf'" by simp
    moreover from le d have "length domain \<le> length pre" by simp
    ultimately show ?thesis ..
  qed
  have absent: "domain = UnFqdn ?s" if no: "\<nexists>pre suf. ?s = pre @ ?sub @ suf"
  proof -
    have "?i = - 1"
    proof (rule ccontr)
      assume "?i \<noteq> - 1"
      from strings_Index_found [OF this] no show False by blast
    qed
    with dom show ?thesis by simp
  qed
  from found absent show ?thesis by simp
qed

theorem parseChallenge_domain_witness:
  "parseChallenge (ex_env ex_config ex_api_dup) ((ex_challenge None)\<lparr>ResolvedZone := ''example.com''\<rparr>)
     = Inr (''example.com'', ''_acme-challenge'')
   \<and> (\<exists>suf'. ''_acme-challenge.example.com.'' = ''_acme-challenge'' @ ''.'' @ ''example.com'' @ suf')
   \<and> parseChallenge (ex_env ex_config ex_api_dup)
        ((ex_challenge None)\<lparr>ResolvedFQDN := ''_acme-challenge.Example.COM.''\<rparr>)
     = Inr (''example.com'', ''_acme-challenge.Example.COM'')
   \<and> (\<nexists>pre suf. ''_acme-challenge.Example.COM.'' = pre @ ''.'' @ ''example.com.'' @ suf)
   \<and> ''_acme-challenge.Example.COM'' = UnFqdn ''_acme-challenge.Example.COM.''"
proof -
  let ?e = "ex_env ex_config ex_api_dup"
  let ?ch1 = "(ex_challenge None)\<lparr>ResolvedZone := ''example.com''\<rparr>"
  let ?ch2 = "(ex_challenge None)\<lparr>ResolvedFQDN := ''_acme-challenge.Example.COM.''\<rparr>"
  have p1: "parseChallenge ?e ?ch1 = Inr (''example.com'', ''_acme-challenge'')"
    by (simp add: ex_defs op_defs)
  have occ: "ResolvedFQDN ?ch1 = ''_acme-challenge'' @ ''.'' @ ResolvedZone ?ch1 @ ''.''"
    by (simp add: ex_defs)
  from parseChallenge_domain [OF p1] occ
  have "\<exists>suf'. ResolvedFQDN ?ch1 = ''_acme-challenge'' @ ''.'' @ ResolvedZone ?ch1 @ suf'"
    by blast
  then have c1: "\<exists>suf'. ''_acme-challenge.example.com.''
                    = ''_acme-challenge'' @ ''.'' @ ''example.com'' @ suf'"
    by (simp add: ex_defs)
  have p2: "parseChallenge ?e ?ch2 = Inr (''example.com'', ''_acme-challenge.Example.COM'')"
    by (simp add: ex_defs op_defs)
  have "strings_Index (ResolvedFQDN ?ch2) (''.'' @ ResolvedZone ?ch2) = - 1"
    by (simp add: ex_defs)
  then have no: "\<nexists>pre suf. ResolvedFQDN ?ch2 = pre @ ''.'' @ ResolvedZone ?ch2 @ suf"
    using strings_Index_first [of "ResolvedFQDN ?ch2" _ "''.'' @ ResolvedZone ?ch2"]
    by (metis append_assoc)
  from parseChallenge_domain [OF p2] no
  have "''_acme-challenge.Example.COM'' = UnFqdn (ResolvedFQDN ?ch2)"
    by blast
  then have c2: "''_acme-challenge.Example.COM'' = UnFqdn ''_acme-challenge.Example.COM.''"
    by (simp add: ex_defs)
  from no have no': "\<nexists>pre suf. ''_acme-challenge.Example.COM.'' = pre @ ''.'' @ ''example.com.'' @ suf"
    by (simp add: ex_defs)
  from p1 c1 p2 no' c2 show ?thesis by blast
qed

section \<open>An incomplete secret reference\<close>

text \<open>
  Claim C4, amended. While the solver holds no provider client (the field is nil), a
  call of Present or CleanUp whose configuration decodes to a secret reference with an
  empty name or an empty key returns an error and leaves the solver as it was: no
  request has been sent to the provider and no secret has been looked up.
\<close>

theorem missing_secret_ref_fails_without_client:
  assumes nil: "ns1Client c = None"
    and cfg: "loadConfig e (Config ch) = (cfg, None)"
    and ref: "ref_Name (APIKeySecretRef cfg) = [] \<or> ref_Key (APIKeySecretRef cfg) = []"
  shows "fst (Present e c ch) \<noteq> None \<and> snd (Present e c ch) = c
       \<and> fst (CleanUp e c ch) \<noteq> None \<and> snd (CleanUp e c ch) = c"
proof -
  note inc = setNS1Client_incomplete_ref [OF ref, of e c ch]
  have p: "fst (Present e c ch) \<noteq> None \<and> snd (Present e c ch) = c"
  proof (cases rule: Present_outcome [of e ch c])
    case (client_error cfg' zone domain err c1)
    with cfg inc show ?thesis by simp
  next
    case (reached cfg' zone domain c1 cl)
    with cfg nil inc show ?thesis by simp
  qed simp_all
  have q: "fst (CleanUp e c ch) \<noteq> None \<and> snd (CleanUp e c ch) = c"
  proof (cases rule: CleanUp_outcome [of e ch c])
    case (client_error cfg' zone domain err c1)
    with cfg inc show ?thesis by simp
  next
    case (reached cfg' zone domain c1 cl)
    with cfg nil inc show ?thesis by simp
  qed simp_all
  from p q show ?thesis by simp
qed

theorem missing_secret_ref_fails_without_client_witness:
  "ns1Client (ex_solver None) = None
   \<and> loadConfig (ex_env ex_config ex_api_dup) (Config (ex_challenge None))
     = (\<lparr>APIKeySecretRef = \<lparr>ref_Name = [], ref_Key = []\<rparr>, Endpoint = [], IgnoreSSL = False\<rparr>, None)
   \<and> fst (Present (ex_env ex_config ex_api_dup) (ex_solver None) (ex_challenge None)) \<noteq> None
   \<and> snd (Present (ex_env ex_config ex_api_dup) (ex_solver None) (ex_challenge None)) = ex_solver None
   \<and> fst (CleanUp (ex_env ex_config ex_api_dup) (ex_solver None) (ex_challenge None)) \<noteq> None
   \<and> snd (CleanUp (ex_env ex_config ex_api_dup) (ex_solver None) (ex_challenge None)) = ex_solver None"
proof -
  let ?e = "ex_env ex_config ex_api_dup"
  let ?z = "\<lparr>APIKeySecretRef = \<lparr>ref_Name = [], ref_Key = []\<rparr>, Endpoint = [], IgnoreSSL = False\<rparr>"
  have a: "ns1Client (ex_solver None) = None" by (simp add: ex_solver_def)
  have b: "loadConfig ?e (Config (ex_challenge None)) = (?z, None)"
    by (simp add: ex_defs op_defs)
  have r: "ref_Name (APIKeySecretRef ?z) = [] \<or> ref_Key (APIKeySecretRef ?z) = []" by simp
  from missing_secret_ref_fails_without_client [OF a b r] a b show ?thesis by blast
qed

text \<open>
  Claim C4 as it is stated fails once a client is held: with the absent blob, which
  decodes to an empty name and an empty key, Present and CleanUp of a solver that holds
  a client send their request to the provider and return success.
\<close>

theorem missing_secret_ref_counterexample:
  "loadConfig (ex_env ex_config ex_api_dup) (Config (ex_challenge None))
     = (\<lparr>APIKeySecretRef = \<lparr>ref_Name = [], ref_Key = []\<rparr>, Endpoint = [], IgnoreSSL = False\<rparr>, None)
   \<and> Present (ex_env ex_config ex_api_dup) (ex_solver (Some ex_client)) (ex_challenge None)
     = (None, (ex_solver (Some ex_client))\<lparr>ns1_calls := [RecordsCreate ex_client ex_record]\<rparr>)
   \<and> CleanUp (ex_env ex_config ex_api_dup) (ex_solver (Some ex_client)) (ex_challenge None)
     = (None, (ex_solver (Some ex_client))
                \<lparr>ns1_calls := [RecordsDelete ex_client ''example.com''
                                 ''_acme-challenge.example.com'' ''TXT'']\<rparr>)"
  by (simp add: ex_defs op_defs)

section \<open>CleanUp returns the provider's error\<close>

text \<open>
  Claim C5. Whenever CleanUp has sent a request to the provider and the provider has
  answered it with an error, CleanUp returns that very error, whichever it is; in
  particular \<open>ErrRecordMissing\<close>, the answer for a record that is not there, is
  returned and not turned into success.
\<close>

theorem CleanUp_returns_provider_error:
  "(ns1_calls (snd (CleanUp e c ch)) = ns1_calls c @ [req]
      \<and> ns1_api e (ns1_calls c) req = Some err
      \<longrightarrow> fst (CleanUp e c ch) = Some err)
   \<and> (ns1_calls (snd (CleanUp e c ch)) = ns1_calls c @ [req]
      \<and> ns1_api e (ns1_calls c) req = Some ErrRecordMissing
      \<longrightarrow> fst (CleanUp e c ch) = Some ErrRecordMissing)"
proof -
  have "fst (CleanUp e c ch) = ns1_api e (ns1_calls c) req"
    if "ns1_calls (snd (CleanUp e c ch)) = ns1_calls c @ [req]"
    using that by (cases rule: CleanUp_outcome [of e ch c]) auto
  then show ?thesis by simp
qed

theorem CleanUp_returns_provider_error_witness:
  "ns1_calls (snd (CleanUp (ex_env ex_config (ex_api_error ErrRecordMissing)) (ex_solver None)
                     (ex_challenge (Some ''ns1.json''))))
     = [RecordsDelete ex_client ''example.com'' ''_acme-challenge.example.com'' ''TXT'']
   \<and> ns1_api (ex_env ex_config (ex_api_error ErrRecordMissing)) []
        (RecordsDelete ex_client ''example.com'' ''_acme-challenge.example.com'' ''TXT'')
       = Some ErrRecordMissing
   \<and> fst (CleanUp (ex_env ex_config (ex_api_error ErrRecordMissing)) (ex_solver None)
            (ex_challenge (Some ''ns1.json''))) = Some ErrRecordMissing"
proof -
  let ?e = "ex_env ex_config (ex_api_error ErrRecordMissing)"
  let ?ch = "ex_challenge (Some ''ns1.json'')"
  let ?req = "RecordsDelete ex_client ''example.com'' ''_acme-challenge.example.com'' ''TXT''"
  have a: "ns1_calls (snd (CleanUp ?e (ex_solver None) ?ch)) = ns1_calls (ex_solver None) @ [?req]"
    by (simp add: ex_defs op_defs)
  have b: "ns1_api ?e (ns1_calls (ex_solver None)) ?req = Some ErrRecordMissing"
    by (simp add: ex_defs)
  from CleanUp_returns_provider_error [of ?e "ex_solver None" ?ch ?req ErrRecordMissing] a b
  have c: "fst (CleanUp ?e (ex_solver None) ?ch) = Some ErrRecordMissing"
    by blast
  from a b c show ?thesis by (simp add: ex_solver_def)
qed

section \<open>The provider client is built once\<close>

text \<open>
  Claim C6. Once the solver holds a provider client, a call of Present or CleanUp keeps
  that client, looks up no secret, and sends its request, if any, with that client. Its
  result does not depend on the cluster's secrets, and it is the same for any two
  configuration blobs that decode without error, whatever secret reference, endpoint
  and ignoreSSL flag they decode to.
\<close>

theorem cached_client_is_reused:
  assumes cached: "ns1Client c = Some cl"
  shows "ns1Client (snd (Present e c ch)) = Some cl
       \<and> ns1Client (snd (CleanUp e c ch)) = Some cl
       \<and> k8s_calls (snd (Present e c ch)) = k8s_calls c
       \<and> k8s_calls (snd (CleanUp e c ch)) = k8s_calls c
       \<and> Present (e\<lparr>Secrets_Get := g\<rparr>) c ch = Present e c ch
       \<and> CleanUp (e\<lparr>Secrets_Get := g\<rparr>) c ch = CleanUp e c ch
       \<and> (snd (loadConfig e (Config ch)) = None \<and> snd (loadConfig e x) = None \<longrightarrow>
            Present e c (ch\<lparr>Config := x\<rparr>) = Present e c ch
            \<and> CleanUp e c (ch\<lparr>Config := x\<rparr>) = CleanUp e c ch)
       \<and> (\<forall>req. ns1_calls (snd (Present e c ch)) = ns1_calls c @ [req] \<longrightarrow>
            (\<exists>r. req = RecordsCreate cl r))
       \<and> (\<forall>req. ns1_calls (snd (CleanUp e c ch)) = ns1_calls c @ [req] \<longrightarrow>
            (\<exists>z d t. req = RecordsDelete cl z d t))"
proof -
  have cfg: "Present e c (ch\<lparr>Config := x\<rparr>) = Present e c ch
            \<and> CleanUp e c (ch\<lparr>Config := x\<rparr>) = CleanUp e c ch"
    if "snd (loadConfig e (Config ch)) = None \<and> snd (loadConfig e x) = None"
    using that Present_cached [OF cached, of e ch] Present_cached [OF cached, of e "ch\<lparr>Config := x\<rparr>"]
      CleanUp_cached [OF cached, of e ch] CleanUp_cached [OF cached, of e "ch\<lparr>Config := x\<rparr>"]
    by (simp cong: sum.case_cong prod.case_cong)
  show ?thesis
    using cfg Present_cached_state [OF cached] CleanUp_cached_state [OF cached]
      Present_cached_Secrets [OF cached] CleanUp_cached_Secrets [OF cached]
    by blast
qed

theorem cached_client_is_reused_witness:
  "ns1Client (ex_solver (Some ex_client)) = Some ex_client
   \<and> snd (loadConfig (ex_env ex_config ex_api_dup) (Config (ex_challenge (Some ''ns1.json'')))) = None
   \<and> loadConfig (ex_env ex_config ex_api_dup) None
       = (\<lparr>APIKeySecretRef = \<lparr>ref_Name = [], ref_Key = []\<rparr>, Endpoint = [], IgnoreSSL = False\<rparr>, None)
   \<and> Present (ex_env ex_config ex_api_dup) (ex_solver (Some ex_client)) (ex_challenge None)
       = Present (ex_env ex_config ex_api_dup) (ex_solver (Some ex_client))
           (ex_challenge (Some ''ns1.json''))
   \<and> CleanUp (ex_env ex_config ex_api_dup) (ex_solver (Some ex_client)) (ex_challenge None)
       = CleanUp (ex_env ex_config ex_api_dup) (ex_solver (Some ex_client))
           (ex_challenge (Some ''ns1.json''))
   \<and> k8s_calls (snd (Present (ex_env ex_config ex_api_dup) (ex_solver (Some ex_client))
                       (ex_challenge None))) = []
   \<and> ns1_calls (snd (Present (ex_env ex_config ex_api_dup) (ex_solver (Some ex_client))
                       (ex_challenge None))) = [RecordsCreate ex_client ex_record]"
proof -
  let ?e = "ex_env ex_config ex_api_dup" and ?c = "ex_solver (Some ex_client)"
  let ?ch = "ex_challenge (Some ''ns1.json'')"
  have a: "ns1Client ?c = Some ex_client" by (simp add: ex_solver_def)
  have b: "snd (loadConfig ?e (Config ?ch)) = None" by (simp add: ex_defs op_defs)
  have z: "loadConfig ?e None
       = (\<lparr>APIKeySecretRef = \<lparr>ref_Name = [], ref_Key = []\<rparr>, Endpoint = [], IgnoreSSL = False\<rparr>, None)"
    by (simp add: op_defs)
  have upd: "?ch\<lparr>Config := None\<rparr> = ex_challenge None" by (simp add: ex_challenge_def)
  note r = cached_client_is_reused [OF a, of ?e ?ch _ None]
  from r b z have "Present ?e ?c (?ch\<lparr>Config := None\<rparr>) = Present ?e ?c ?ch
            \<and> CleanUp ?e ?c (?ch\<lparr>Config := None\<rparr>) = CleanUp ?e ?c ?ch"
    by simp
  then have same: "Present ?e ?c (ex_challenge None) = Present ?e ?c ?ch"
    "CleanUp ?e ?c (ex_challenge None) = CleanUp ?e ?c ?ch"
    by (simp_all add: upd)
  from cached_client_is_reused [OF a, of ?e "ex_challenge None"]
  have "k8s_calls (snd (Present ?e ?c (ex_challenge None))) = k8s_calls ?c" by blast
  then have k: "k8s_calls (snd (Present ?e ?c (ex_challenge None))) = []"
    by (simp add: ex_solver_def)
  have n: "ns1_calls (snd (Present ?e ?c (ex_challenge None))) = [RecordsCreate ex_client ex_record]"
    by (simp add: ex_defs op_defs)
  from a b z same k n show ?thesis by blast
qed

section \<open>CleanUp does not read the key\<close>

text \<open>
  Claim C7. Two challenges that differ only in their Key field make CleanUp do the
  same: the same result, the same state and so the same delete request, which names
  the record by zone, name and type only.
\<close>

theorem CleanUp_ignores_Key: "CleanUp e c (ch\<lparr>Key := k\<rparr>) = CleanUp e c ch"
  by (simp add: CleanUp_def cong: prod.case_cong option.case_cong sum.case_cong if_cong)

theorem CleanUp_ignores_Key_witness:
  "CleanUp (ex_env ex_config ex_api_dup) (ex_solver (Some ex_client))
     ((ex_challenge (Some ''ns1.json''))\<lparr>Key := ''token-2''\<rparr>)
   = (None, (ex_solver (Some ex_client))
              \<lparr>ns1_calls := [RecordsDelete ex_client ''example.com''
                               ''_acme-challenge.example.com'' ''TXT'']\<rparr>)"
proof -
  have "CleanUp (ex_env ex_config ex_api_dup) (ex_solver (Some ex_client))
          (ex_challenge (Some ''ns1.json''))
        = (None, (ex_solver (Some ex_client))
              \<lparr>ns1_calls := [RecordsDelete ex_client ''example.com''
                               ''_acme-challenge.example.com'' ''TXT'']\<rparr>)"
    by (simp add: ex_defs op_defs)
  then show ?thesis
    using CleanUp_ignores_Key [where e = "ex_env ex_config ex_api_dup"
                                 and c = "ex_solver (Some ex_client)"
                                 and ch = "ex_challenge (Some ''ns1.json'')"
                                 and k = "''token-2''"]
    by simp
qed

section \<open>The record Present creates\<close>



section \<open>TLS verification of the client that is built\<close>

text \<open>
  Claim C9. When setNS1Client builds the provider client, a configuration with
  IgnoreSSL set gives it an HTTP client whose transport has InsecureSkipVerify set, the
  flag that disables certificate verification; a configuration with IgnoreSSL unset
  gives it the HTTP client as \<^verbatim>\<open>&http.Client{}\<close> makes it, with no transport of
  its own, for which the Go library uses its default, verifying transport.
\<close>

theorem setNS1Client_transport:
  assumes built: "setNS1Client e c ch cfg = (None, c')"
  shows "\<exists>cl. ns1Client c' = Some cl
          \<and> (IgnoreSSL cfg \<longrightarrow>
               client_http cl = \<lparr>Transport = Some \<lparr>InsecureSkipVerify = True\<rparr>\<rparr>)
          \<and> (\<not> IgnoreSSL cfg \<longrightarrow> client_http cl = \<lparr>Transport = None\<rparr>)"
proof -
  from setNS1Client_built [OF built] obtain apiKey where
    cl: "ns1Client c' =
        Some (NewClient (if IgnoreSSL cfg
                         then \<lparr>Transport = Some \<lparr>InsecureSkipVerify = True\<rparr>\<rparr>
                         else \<lparr>Transport = None\<rparr>) apiKey (Endpoint cfg))" ..
  show ?thesis
    by (rule exI, rule conjI, rule cl) (simp add: NewClient_def)
qed

theorem setNS1Client_transport_witness:
  "(\<exists>c'. setNS1Client (ex_env ex_config ex_api_dup) (ex_solver None) (ex_challenge None)
             (ex_config\<lparr>IgnoreSSL := True\<rparr>) = (None, c')
        \<and> (\<exists>cl. ns1Client c' = Some cl
              \<and> client_http cl = \<lparr>Transport = Some \<lparr>InsecureSkipVerify = True\<rparr>\<rparr>))
   \<and> (\<exists>c'. setNS1Client (ex_env ex_config ex_api_dup) (ex_solver None) (ex_challenge None)
             ex_config = (None, c')
        \<and> (\<exists>cl. ns1Client c' = Some cl \<and> client_http cl = \<lparr>Transport = None\<rparr>))"
proof -
  let ?e = "ex_env ex_config ex_api_dup" and ?c = "ex_solver None" and ?ch = "ex_challenge None"
  let ?cT = "?c\<lparr>k8s_calls := [(''default'', ''ns1-creds'')],
               ns1Client := Some (NewClient \<lparr>Transport = Some \<lparr>InsecureSkipVerify = True\<rparr>\<rparr>
                                   ''s3cr3t'' ''https://api.nsone.net/v1/'')\<rparr>"
  let ?cF = "?c\<lparr>k8s_calls := [(''default'', ''ns1-creds'')], ns1Client := Some ex_client\<rparr>"
  have t: "setNS1Client ?e ?c ?ch (ex_config\<lparr>IgnoreSSL := True\<rparr>) = (None, ?cT)"
    by (simp add: ex_defs op_defs)
  have f: "setNS1Client ?e ?c ?ch ex_config = (None, ?cF)"
    by (simp add: ex_defs op_defs)
  have it: "IgnoreSSL (ex_config\<lparr>IgnoreSSL := True\<rparr>)" and "\<not> IgnoreSSL ex_config"
    by (simp_all add: ex_config_def)
  with setNS1Client_transport [OF t] setNS1Client_transport [OF f] t f
  show ?thesis by blast
qed

section \<open>Decoding the configuration\<close>

text \<open>
  Claim C10. loadConfig of the absent blob returns the zero-value configuration and no
  error. For a blob the JSON decoder rejects, loadConfig returns the error
  \<^verbatim>\<open>error decoding solver config: \<close> followed by the decoder's message; and
  whenever loadConfig returns an error, Present and CleanUp return it at once, with the
  solver unchanged.
\<close>

theorem loadConfig_nil_and_malformed:
  "loadConfig e None
     = (\<lparr>APIKeySecretRef = \<lparr>ref_Name = [], ref_Key = []\<rparr>, Endpoint = [], IgnoreSSL = False\<rparr>, None)
   \<and> (snd (json_Unmarshal e raw
              \<lparr>APIKeySecretRef = \<lparr>ref_Name = [], ref_Key = []\<rparr>, Endpoint = [],
               IgnoreSSL = False\<rparr>) = Some msg
        \<longrightarrow> snd (loadConfig e (Some raw))
              = Some (Errorf (''error decoding solver config: '' @ msg)))
   \<and> (snd (loadConfig e (Config ch)) = Some err
        \<longrightarrow> Present e c ch = (Some err, c) \<and> CleanUp e c ch = (Some err, c))"
proof (intro conjI impI)
  show "loadConfig e None
     = (\<lparr>APIKeySecretRef = \<lparr>ref_Name = [], ref_Key = []\<rparr>, Endpoint = [], IgnoreSSL = False\<rparr>, None)"
    by (simp add: loadConfig_def zero_config_def)
next
  assume "snd (json_Unmarshal e raw
              \<lparr>APIKeySecretRef = \<lparr>ref_Name = [], ref_Key = []\<rparr>, Endpoint = [],
               IgnoreSSL = False\<rparr>) = Some msg"
  then obtain cfg' where "json_Unmarshal e raw
              \<lparr>APIKeySecretRef = \<lparr>ref_Name = [], ref_Key = []\<rparr>, Endpoint = [],
               IgnoreSSL = False\<rparr> = (cfg', Some msg)"
    by (metis prod.collapse)
  then show "snd (loadConfig e (Some raw)) = Some (Errorf (''error decoding solver config: '' @ msg))"
    by (simp add: loadConfig_def zero_config_def)
next
  assume h: "snd (loadConfig e (Config ch)) = Some err"
  show "Present e c ch = (Some err, c)"
    using h by (cases rule: Present_outcome [of e ch c]) auto
  show "CleanUp e c ch = (Some err, c)"
    using h by (cases rule: CleanUp_outcome [of e ch c]) auto
qed

theorem loadConfig_nil_and_malformed_witness:
  "snd (json_Unmarshal (ex_env ex_config ex_api_dup) ''{''
          \<lparr>APIKeySecretRef = \<lparr>ref_Name = [], ref_Key = []\<rparr>, Endpoint = [], IgnoreSSL = False\<rparr>)
     = Some ''unexpected end of JSON input''
   \<and> snd (loadConfig (ex_env ex_config ex_api_dup) (Config (ex_challenge (Some ''{''))))
     = Some (Errorf ''error decoding solver config: unexpected end of JSON input'')
   \<and> Present (ex_env ex_config ex_api_dup) (ex_solver None) (ex_challenge (Some ''{''))
     = (Some (Errorf ''error decoding solver config: unexpected end of JSON input''), ex_solver None)
   \<and> CleanUp (ex_env ex_config ex_api_dup) (ex_solver None) (ex_challenge (Some ''{''))
     = (Some (Errorf ''error decoding solver config: unexpected end of JSON input''), ex_solver None)"
proof -
  let ?e = "ex_env ex_config ex_api_dup" and ?ch = "ex_challenge (Some ''{'')"
  let ?z = "\<lparr>APIKeySecretRef = \<lparr>ref_Name = [], ref_Key = []\<rparr>, Endpoint = [], IgnoreSSL = False\<rparr>"
  have a: "snd (json_Unmarshal ?e ''{'' ?z) = Some ''unexpected end of JSON input''"
    by (simp add: ex_env_def)
  have cfg: "Config ?ch = Some ''{''" by (simp add: ex_challenge_def)
  note r = loadConfig_nil_and_malformed
             [of ?e "''{''" "''unexpected end of JSON input''" ?ch
                "Errorf ''error decoding solver config: unexpected end of JSON input''"
                "ex_solver None"]
  from r a have b: "snd (loadConfig ?e (Some ''{''))
      = Some (Errorf (''error decoding solver config: '' @ ''unexpected end of JSON input''))"
    by blast
  then have b': "snd (loadConfig ?e (Config ?ch))
      = Some (Errorf ''error decoding solver config: unexpected end of JSON input'')"
    by (simp add: cfg)
  with r have "Present ?e (ex_solver None) ?ch
     = (Some (Errorf ''error decoding solver config: unexpected end of JSON input''), ex_solver None)
   \<and> CleanUp ?e (ex_solver None) ?ch
     = (Some (Errorf ''error decoding solver config: unexpected end of JSON input''), ex_solver None)"
    by blast
  with a b' show ?thesis by blast
qed

end
